theory Spec2Isabelle
  imports Complex_Main "HOL-Library.Product_Lexorder" "HOL-Library.Multiset"
begin

section \<open>Python values and exceptions\<close>

text \<open>
  The engine of \<^verbatim>\<open>quiz_application.py\<close> is modelled by explicit state passing. A method
  that mutates \<^verbatim>\<open>self\<close> returns the new object next to its return value; where the
  method can raise, the return value is a sum whose left side is the exception, and the
  object returned with it is the object as the raise left it. Python's unbounded integers
  are \<^typ>\<open>int\<close>. The percentage is a Python float; it is modelled by \<^typ>\<open>real\<close>, that is
  by exact arithmetic, so rounding is not part of the model.
\<close>

datatype py_error = KeyError | IndexError | ZeroDivisionError

text \<open>\<^verbatim>\<open>xs[i]\<close>: a negative index counts from the end, an index out of range raises.\<close>

definition getitem :: "'a list \<Rightarrow> int \<Rightarrow> py_error + 'a" where
  "getitem xs i =
     (if 0 \<le> i \<and> i < int (length xs) then Inr (xs ! nat i)
      else if i < 0 \<and> - int (length xs) \<le> i then Inr (xs ! nat (int (length xs) + i))
      else Inl IndexError)"

text \<open>\<^verbatim>\<open>a / b\<close> on integers: true division, which raises on a zero divisor.\<close>

definition truediv :: "int \<Rightarrow> int \<Rightarrow> py_error + real" where
  "truediv a b = (if b = 0 then Inl ZeroDivisionError else Inr (real_of_int a / real_of_int b))"

text \<open>\<^verbatim>\<open>str(n)\<close> of an integer, as an f-string field formats it.\<close>

fun str_nat :: "nat \<Rightarrow> string" where
  "str_nat n =
     (if n < 10 then [char_of (48 + n)]
      else str_nat (n div 10) @ [char_of (48 + n mod 10)])"

definition str_int :: "int \<Rightarrow> string" where
  "str_int i = (if i < 0 then CHR ''-'' # str_nat (nat (- i)) else str_nat (nat i))"

section \<open>Core data classes\<close>

record Question =
  question :: string
  options :: "string list"
  correct_answer :: int
  time_limit :: int
  marks :: int
  negative_marks :: int

definition is_correct :: "Question \<Rightarrow> int \<Rightarrow> bool" where
  "is_correct self answer = (answer = correct_answer self)"

text \<open>
  \<^verbatim>\<open>QuizResult\<close>. Its constructor reads the clock for the timestamp; the model takes the
  formatted time as an argument.
\<close>

record QuizResult =
  department :: string
  difficulty :: string
  result_score :: int
  result_total_marks :: int
  percentage :: real
  player_name :: string
  timestamp :: string

text \<open>The dictionary that \<^verbatim>\<open>to_dict\<close> builds, one leaderboard entry.\<close>

record entry =
  entry_player_name :: string
  entry_score :: int
  entry_total_marks :: int
  entry_percentage :: real
  entry_timestamp :: string

definition to_dict :: "QuizResult \<Rightarrow> entry" where
  "to_dict self =
     \<lparr>entry_player_name = player_name self,
      entry_score = result_score self,
      entry_total_marks = result_total_marks self,
      entry_percentage = percentage self,
      entry_timestamp = timestamp self\<rparr>"

definition passed :: "QuizResult \<Rightarrow> bool" where
  "passed self = (percentage self \<ge> 80)"

section \<open>High score manager\<close>

text \<open>
  \<^verbatim>\<open>self.scores\<close> is a dictionary of dictionaries of lists. Reading and writing the JSON
  file is outside the model: \<^verbatim>\<open>_save_scores\<close> catches every exception of the write, so
  it changes nothing of the object.
\<close>

type_synonym scores_dict = "string \<rightharpoonup> (string \<rightharpoonup> entry list)"

record HighScoreManager =
  filename :: string
  scores :: scores_dict

definition default_departments :: "string list" where
  "default_departments =
     [''Electrical Engineering'', ''Computer Science'',
      ''Business Administration'', ''Mathematics'']"

definition default_difficulties :: "string list" where
  "default_difficulties = [''Easy'', ''Medium'', ''Hard'', ''Expert'']"

definition create_default_structure :: scores_dict where
  "create_default_structure =
     foldl (\<lambda>structure dept.
              structure(dept \<mapsto>
                foldl (\<lambda>inner diff. inner(diff \<mapsto> [])) Map.empty default_difficulties))
           Map.empty default_departments"

text \<open>The sort key of \<^verbatim>\<open>add_score\<close>: \<^verbatim>\<open>lambda x: (-x['percentage'], -x['score'])\<close>.\<close>

definition sort_key_of :: "entry \<Rightarrow> real \<times> int" where
  "sort_key_of x = (- entry_percentage x, - entry_score x)"

text \<open>
  \<^verbatim>\<open>add_score\<close>. The two subscripts of the first line raise \<^verbatim>\<open>KeyError\<close> before
  anything is changed. \<^verbatim>\<open>list.sort\<close> is a stable ascending sort by key, as
  \<^const>\<open>sort_key\<close> is.
\<close>

definition add_score :: "HighScoreManager \<Rightarrow> QuizResult \<Rightarrow> (py_error + unit) \<times> HighScoreManager" where
  "add_score self result =
     (case scores self (department result) of
        None \<Rightarrow> (Inl KeyError, self)
      | Some by_difficulty \<Rightarrow>
          (case by_difficulty (difficulty result) of
             None \<Rightarrow> (Inl KeyError, self)
           | Some dept_scores \<Rightarrow>
               (let appended = dept_scores @ [to_dict result];
                    sorted_scores = sort_key sort_key_of appended
                in (Inr (),
                    self\<lparr>scores := (scores self)(department result \<mapsto>
                       by_difficulty(difficulty result \<mapsto> take 10 sorted_scores))\<rparr>))))"

definition get_leaderboard :: "HighScoreManager \<Rightarrow> string \<Rightarrow> string \<Rightarrow> entry list" where
  "get_leaderboard self dept diff =
     (case scores self dept of
        None \<Rightarrow> []
      | Some by_difficulty \<Rightarrow> (case by_difficulty diff of None \<Rightarrow> [] | Some l \<Rightarrow> l))"

definition get_all_leaderboards :: "HighScoreManager \<Rightarrow> scores_dict" where
  "get_all_leaderboards self = scores self"

section \<open>Quiz engine\<close>

text \<open>One question of the questions file, a dictionary with six keys.\<close>

record question_data =
  q_question :: string
  q_options :: "string list"
  q_correct_answer :: int
  q_time_limit :: int
  q_marks :: int
  q_negative_marks :: int

record QuizEngine =
  all_questions :: "string \<rightharpoonup> (string \<rightharpoonup> question_data list)"
  current_questions :: "Question list"
  current_question_index :: int
  score :: int
  total_marks :: int
  high_score_manager :: HighScoreManager

text \<open>
  The constructor, with the content of the questions file and the loaded high score
  manager as arguments. The fields \<^verbatim>\<open>questions_file\<close> and \<^verbatim>\<open>departments\<close> (the
  keys of \<^verbatim>\<open>all_questions\<close>) are read by none of the methods below and are left out.
\<close>

definition init :: "(string \<rightharpoonup> (string \<rightharpoonup> question_data list)) \<Rightarrow> HighScoreManager \<Rightarrow> QuizEngine" where
  "init questions manager =
     \<lparr>all_questions = questions,
      current_questions = [],
      current_question_index = 0,
      score = 0,
      total_marks = 0,
      high_score_manager = manager\<rparr>"

definition make_question :: "question_data \<Rightarrow> Question" where
  "make_question q =
     \<lparr>question = q_question q,
      options = q_options q,
      correct_answer = q_correct_answer q,
      time_limit = q_time_limit q,
      marks = q_marks q,
      negative_marks = q_negative_marks q\<rparr>"

definition load_quiz :: "QuizEngine \<Rightarrow> string \<Rightarrow> string \<Rightarrow> bool \<times> QuizEngine" where
  "load_quiz self dept diff =
     (case all_questions self dept of
        None \<Rightarrow> (False, self)
      | Some by_difficulty \<Rightarrow>
          (case by_difficulty diff of
             None \<Rightarrow> (False, self)
           | Some data \<Rightarrow>
               (let qs = map make_question data
                in (True,
                    self\<lparr>current_questions := qs,
                         current_question_index := 0,
                         score := 0,
                         total_marks := sum_list (map marks qs)\<rparr>))))"

definition get_current_question :: "QuizEngine \<Rightarrow> Question option" where
  "get_current_question self =
     (if 0 \<le> current_question_index self
         \<and> current_question_index self < int (length (current_questions self))
      then Some (current_questions self ! nat (current_question_index self))
      else None)"

text \<open>
  The three feedback texts start with a symbol that the source file stores as the bytes
  below; the rest is ASCII.
\<close>

definition clock_mark :: string where
  "clock_mark = [CHR 0xE2, CHR 0x80, CHR 0x9A, CHR 0xC3, CHR 0xA8, CHR 0xE2, CHR 0x88, CHR 0x9E]"

definition check_mark :: string where
  "check_mark = [CHR 0xE2, CHR 0x80, CHR 0x9A, CHR 0xC3, CHR 0xBA, CHR 0xC3, CHR 0xAC]"

definition cross_mark :: string where
  "cross_mark = [CHR 0xE2, CHR 0x80, CHR 0x9A, CHR 0xC3, CHR 0xBA, CHR 0xC3, CHR 0xB3]"

definition timeout_feedback :: "Question \<Rightarrow> string" where
  "timeout_feedback q =
     clock_mark @ '' Time'' @ [CHR 0x27] @ ''s up! (-'' @ str_int (negative_marks q) @ '' marks)''"

definition correct_feedback :: "Question \<Rightarrow> string" where
  "correct_feedback q = check_mark @ '' Correct! (+'' @ str_int (marks q) @ '' marks)''"

definition wrong_feedback :: "Question \<Rightarrow> string \<Rightarrow> string" where
  "wrong_feedback q correct_option =
     cross_mark @ '' Wrong! Correct answer: '' @ correct_option
       @ '' (-'' @ str_int (negative_marks q) @ '' marks)''"

text \<open>
  \<^verbatim>\<open>submit_answer\<close>: the answer is \<^verbatim>\<open>None\<close> when the time expired. In the last branch
  the score is changed before \<^verbatim>\<open>question.options[question.correct_answer]\<close> is read,
  so an \<^verbatim>\<open>IndexError\<close> there leaves the changed score behind.
\<close>

definition submit_answer :: "QuizEngine \<Rightarrow> int option \<Rightarrow> (py_error + bool \<times> int \<times> string) \<times> QuizEngine" where
  "submit_answer self answer =
     (case get_current_question self of
        None \<Rightarrow> (Inr (False, 0, ''No question available''), self)
      | Some q \<Rightarrow>
          (case answer of
             None \<Rightarrow>
               (let points = - negative_marks q
                in (Inr (False, points, timeout_feedback q),
                    self\<lparr>score := score self + points\<rparr>))
           | Some a \<Rightarrow>
               if is_correct q a then
                 (let points = marks q
                  in (Inr (True, points, correct_feedback q),
                      self\<lparr>score := score self + points\<rparr>))
               else
                 (let points = - negative_marks q;
                      self' = self\<lparr>score := score self + points\<rparr>
                  in case getitem (options q) (correct_answer q) of
                       Inl e \<Rightarrow> (Inl e, self')
                     | Inr correct_option \<Rightarrow>
                         (Inr (False, points, wrong_feedback q correct_option), self'))))"

definition next_question :: "QuizEngine \<Rightarrow> bool \<times> QuizEngine" where
  "next_question self =
     (let self' = self\<lparr>current_question_index := current_question_index self + 1\<rparr>
      in (current_question_index self' < int (length (current_questions self')), self'))"

definition is_quiz_complete :: "QuizEngine \<Rightarrow> bool" where
  "is_quiz_complete self =
     (current_question_index self \<ge> int (length (current_questions self)))"

definition get_progress :: "QuizEngine \<Rightarrow> int \<times> int" where
  "get_progress self = (current_question_index self + 1, int (length (current_questions self)))"

text \<open>
  \<^verbatim>\<open>get_final_result\<close>; \<open>now\<close> is the time that the constructor of the result reads.
\<close>

definition get_final_result ::
  "QuizEngine \<Rightarrow> string \<Rightarrow> string \<Rightarrow> string \<Rightarrow> string \<Rightarrow> (py_error + QuizResult) \<times> QuizEngine" where
  "get_final_result self dept diff name now =
     (case (if total_marks self > 0
            then (case truediv (score self) (total_marks self) of
                    Inl e \<Rightarrow> Inl e
                  | Inr ratio \<Rightarrow> Inr (ratio * 100))
            else Inr 0) of
        Inl e \<Rightarrow> (Inl e, self)
      | Inr pct \<Rightarrow>
          (let result = \<lparr>department = dept, difficulty = diff, result_score = score self,
                          result_total_marks = total_marks self, percentage = pct,
                          player_name = name, timestamp = now\<rparr>
           in case add_score (high_score_manager self) result of
                (Inl e, manager) \<Rightarrow> (Inl e, self\<lparr>high_score_manager := manager\<rparr>)
              | (Inr _, manager) \<Rightarrow> (Inr result, self\<lparr>high_score_manager := manager\<rparr>)))"

section \<open>Properties of the specification\<close>

text \<open>
  A bucket is ranked when its entries are non-increasing in the lexicographic order of
  (percentage, score).
\<close>

definition ranked :: "entry list \<Rightarrow> bool" where
  "ranked l =
     sorted_wrt (\<lambda>a b. (entry_percentage b, entry_score b) \<le> (entry_percentage a, entry_score a)) l"

text \<open>A store is well formed when every bucket is ranked and holds at most 10 entries.\<close>

definition well_formed :: "HighScoreManager \<Rightarrow> bool" where
  "well_formed m =
     (\<forall>dept diff. length (get_leaderboard m dept diff) \<le> 10 \<and> ranked (get_leaderboard m dept diff))"

text \<open>The stores that calls of \<^verbatim>\<open>add_score\<close> lead to from \<open>m0\<close>, raising calls included.\<close>

inductive recorded :: "HighScoreManager \<Rightarrow> HighScoreManager \<Rightarrow> bool" for m0 where
  recorded_start: "recorded m0 m0"
| recorded_add: "recorded m0 m \<Longrightarrow> add_score m r = (out, m') \<Longrightarrow> recorded m0 m'"

text \<open>
  The engine states that \<^verbatim>\<open>load_quiz\<close>, \<^verbatim>\<open>submit_answer\<close> and \<^verbatim>\<open>next_question\<close>
  lead to from a new engine.
\<close>

inductive reachable :: "QuizEngine \<Rightarrow> bool" where
  reachable_init: "reachable (init questions manager)"
| reachable_load: "reachable self \<Longrightarrow> load_quiz self dept diff = (ok, self') \<Longrightarrow> reachable self'"
| reachable_submit: "reachable self \<Longrightarrow> submit_answer self answer = (out, self') \<Longrightarrow> reachable self'"
| reachable_next: "reachable self \<Longrightarrow> next_question self = (remaining, self') \<Longrightarrow> reachable self'"

text \<open>The engine after \<open>k\<close> calls of \<^verbatim>\<open>next_question\<close>.\<close>

definition advance :: "nat \<Rightarrow> QuizEngine \<Rightarrow> QuizEngine" where
  "advance k self = ((\<lambda>s. snd (next_question s)) ^^ k) self"

section \<open>A concrete quiz\<close>

text \<open>
  The two questions of the specification's end-to-end example, in a catalogue that also
  has a difficulty without questions, and the default high score structure.
\<close>

definition demo_q1 :: question_data where
  "demo_q1 =
     \<lparr>q_question = ''2 + 2 = ?'', q_options = [''4'', ''5''], q_correct_answer = 0,
      q_time_limit = 30, q_marks = 10, q_negative_marks = 5\<rparr>"

definition demo_q2 :: question_data where
  "demo_q2 =
     \<lparr>q_question = ''3 * 3 = ?'', q_options = [''6'', ''9''], q_correct_answer = 1,
      q_time_limit = 30, q_marks = 20, q_negative_marks = 10\<rparr>"

definition demo_catalog :: "string \<rightharpoonup> (string \<rightharpoonup> question_data list)" where
  "demo_catalog =
     [''Mathematics'' \<mapsto> [''Easy'' \<mapsto> [demo_q1, demo_q2], ''Hard'' \<mapsto> []]]"

definition demo_manager :: HighScoreManager where
  "demo_manager = \<lparr>filename = ''high_scores.json'', scores = create_default_structure\<rparr>"

definition demo_engine :: QuizEngine where
  "demo_engine = init demo_catalog demo_manager"

definition demo_loaded :: QuizEngine where
  "demo_loaded = snd (load_quiz demo_engine ''Mathematics'' ''Easy'')"

definition demo_result :: QuizResult where
  "demo_result =
     \<lparr>department = ''Mathematics'', difficulty = ''Easy'', result_score = 0,
      result_total_marks = 30, percentage = 0, player_name = ''Alice'',
      timestamp = ''2024-01-01 10:00:00''\<rparr>"


definition demo_empty :: QuizEngine where
  "demo_empty = snd (load_quiz demo_engine ''Mathematics'' ''Hard'')"

definition demo_first :: "(py_error + QuizResult) \<times> QuizEngine" where
  "demo_first =
     get_final_result (advance 2 demo_loaded) ''Mathematics'' ''Easy'' ''Alice'' ''2024-01-01 10:00:00''"

definition demo_second :: "(py_error + QuizResult) \<times> QuizEngine" where
  "demo_second =
     get_final_result (snd demo_first) ''Mathematics'' ''Easy'' ''Alice'' ''2024-01-01 10:00:05''"

definition demo_top_entry :: entry where
  "demo_top_entry =
     \<lparr>entry_player_name = ''Bob'', entry_score = 30, entry_total_marks = 30,
      entry_percentage = 100, entry_timestamp = ''2023-12-31 09:00:00''\<rparr>"

definition demo_full :: HighScoreManager where
  "demo_full =
     \<lparr>filename = ''high_scores.json'',
      scores = [''Mathematics'' \<mapsto> [''Easy'' \<mapsto> replicate 10 demo_top_entry]]\<rparr>"

section \<open>Auxiliary facts\<close>

lemma feedback_distinct:
  "timeout_feedback q \<noteq> correct_feedback q'"
  "timeout_feedback q \<noteq> wrong_feedback q' c"
  "correct_feedback q \<noteq> wrong_feedback q' c"
  "timeout_feedback q \<noteq> ''No question available''"
  "correct_feedback q \<noteq> ''No question available''"
  "wrong_feedback q c \<noteq> ''No question available''"
  by (simp_all add: timeout_feedback_def correct_feedback_def wrong_feedback_def
      clock_mark_def check_mark_def cross_mark_def)

lemma getitem_valid: "0 \<le> i \<Longrightarrow> i < int (length xs) \<Longrightarrow> getitem xs i = Inr (xs ! nat i)"
  by (simp add: getitem_def)

lemma demo_loaded_eq:
  "demo_loaded =
     \<lparr>all_questions = demo_catalog,
      current_questions = [make_question demo_q1, make_question demo_q2],
      current_question_index = 0, score = 0, total_marks = 30,
      high_score_manager = demo_manager\<rparr>"
  by (simp add: demo_loaded_def demo_engine_def init_def load_quiz_def demo_catalog_def Let_def
      make_question_def demo_q1_def demo_q2_def)

lemma demo_current: "get_current_question demo_loaded = Some (make_question demo_q1)"
  by (simp add: demo_loaded_eq get_current_question_def)

lemma demo_q1_fields:
  "options (make_question demo_q1) = [''4'', ''5'']"
  "correct_answer (make_question demo_q1) = 0"
  "marks (make_question demo_q1) = 10"
  "negative_marks (make_question demo_q1) = 5"
  by (simp_all add: make_question_def demo_q1_def)

lemma next_question_eq:
  "next_question self =
     (current_question_index self + 1 < int (length (current_questions self)),
      self\<lparr>current_question_index := current_question_index self + 1\<rparr>)"
  by (simp add: next_question_def Let_def)

lemma advance_eq:
  "advance k self = self\<lparr>current_question_index := current_question_index self + int k\<rparr>"
proof (induction k)
  case 0
  show ?case by (simp add: advance_def)
next
  case (Suc k)
  have "advance (Suc k) self = snd (next_question (advance k self))"
    by (simp add: advance_def)
  also have "\<dots> = self\<lparr>current_question_index := current_question_index self + int (Suc k)\<rparr>"
    by (simp add: Suc next_question_eq add.assoc)
  finally show ?case .
qed

lemma demo_done_complete: "is_quiz_complete (advance 2 demo_loaded)"
  by (simp add: advance_eq is_quiz_complete_def demo_loaded_eq)

lemma add_score_cases:
  "(\<exists>by_difficulty l.
       scores m (department r) = Some by_difficulty \<and> by_difficulty (difficulty r) = Some l
     \<and> add_score m r =
         (Inr (), m\<lparr>scores := (scores m)(department r \<mapsto>
            by_difficulty(difficulty r \<mapsto> take 10 (sort_key sort_key_of (l @ [to_dict r]))))\<rparr>))
   \<or> ((scores m (department r) = None
        \<or> (\<exists>by_difficulty. scores m (department r) = Some by_difficulty
              \<and> by_difficulty (difficulty r) = None))
      \<and> add_score m r = (Inl KeyError, m))"
  by (auto simp: add_score_def Let_def split: option.splits)

lemma default_bucket:
  "dept \<in> set default_departments \<Longrightarrow> diff \<in> set default_difficulties \<Longrightarrow>
     \<exists>by_difficulty. create_default_structure dept = Some by_difficulty \<and> by_difficulty diff = Some []"
  by (auto simp: create_default_structure_def default_departments_def default_difficulties_def)

lemma add_score_error: "add_score m r = (Inl e, m') \<Longrightarrow> e = KeyError \<and> m' = m"
  using add_score_cases [of m r] by auto

lemma final_percentage:
  "(if total_marks self > 0
    then (case truediv (score self) (total_marks self) of
            Inl e \<Rightarrow> Inl e
          | Inr ratio \<Rightarrow> Inr (ratio * 100))
    else Inr 0) =
   Inr (if 0 < total_marks self
        then real_of_int (score self) / real_of_int (total_marks self) * 100 else 0)"
  by (simp add: truediv_def)

lemma get_final_result_eq:
  "get_final_result self dept diff name now =
     (let result = \<lparr>department = dept, difficulty = diff, result_score = score self,
                     result_total_marks = total_marks self,
                     percentage = (if 0 < total_marks self
                            then real_of_int (score self) / real_of_int (total_marks self) * 100
                            else 0),
                     player_name = name, timestamp = now\<rparr>
      in case add_score (high_score_manager self) result of
           (Inl e, manager) \<Rightarrow> (Inl e, self\<lparr>high_score_manager := manager\<rparr>)
         | (Inr u, manager) \<Rightarrow> (Inr result, self\<lparr>high_score_manager := manager\<rparr>))"
  unfolding get_final_result_def final_percentage sum.case by (rule refl)


lemma demo_empty_eq:
  "demo_empty =
     \<lparr>all_questions = demo_catalog, current_questions = [],
      current_question_index = 0, score = 0, total_marks = 0,
      high_score_manager = demo_manager\<rparr>"
  by (simp add: demo_empty_def demo_engine_def init_def load_quiz_def demo_catalog_def Let_def)

lemma demo_bucket:
  "\<exists>by_difficulty l. scores demo_manager ''Mathematics'' = Some by_difficulty
          \<and> by_difficulty ''Easy'' = Some l"
  using default_bucket [of "''Mathematics''" "''Easy''"]
  by (auto simp: demo_manager_def default_departments_def default_difficulties_def)

lemma load_quiz_cases:
  "(\<exists>by_difficulty data. all_questions self dept = Some by_difficulty \<and> by_difficulty diff = Some data
      \<and> load_quiz self dept diff =
          (True, self\<lparr>current_questions := map make_question data,
                      current_question_index := 0, score := 0,
                      total_marks := sum_list (map marks (map make_question data))\<rparr>))
   \<or> ((all_questions self dept = None
        \<or> (\<exists>by_difficulty. all_questions self dept = Some by_difficulty \<and> by_difficulty diff = None))
      \<and> load_quiz self dept diff = (False, self))"
  by (auto simp: load_quiz_def Let_def split: option.splits)

lemma load_quiz_index:
  "load_quiz self dept diff = (ok, self') \<Longrightarrow>
     current_question_index self' = (if ok then 0 else current_question_index self)"
  using load_quiz_cases [of self dept diff] by auto

lemma submit_answer_index:
  "current_question_index (snd (submit_answer self answer)) = current_question_index self"
  by (auto simp: submit_answer_def Let_def split: option.splits sum.splits)

lemma demo_load: "load_quiz demo_engine ''Mathematics'' ''Easy'' = (True, demo_loaded)"
  by (simp add: demo_loaded_def demo_engine_def init_def load_quiz_def demo_catalog_def Let_def)

lemma reachable_demo_loaded: "reachable demo_loaded"
  using reachable_load [OF reachable_init demo_load [unfolded demo_engine_def]] .

lemma reachable_advance: "reachable self \<Longrightarrow> reachable (advance k self)"
proof (induction k)
  case 0
  then show ?case by (simp add: advance_def)
next
  case (Suc k)
  have "next_question (advance k self) = (fst (next_question (advance k self)), advance (Suc k) self)"
    by (simp add: advance_def)
  with Suc show ?case by (blast intro: reachable_next)
qed

lemma sort_key_of_le:
  "sort_key_of a \<le> sort_key_of b \<longleftrightarrow>
     (entry_percentage b, entry_score b) \<le> (entry_percentage a, entry_score a)"
  by (auto simp: sort_key_of_def)

lemma ranked_sort_key: "ranked (sort_key sort_key_of xs)"
proof -
  have "sorted (map sort_key_of (sort_key sort_key_of xs))" by (rule sorted_sort_key)
  then show ?thesis by (simp add: ranked_def sorted_map sort_key_of_le)
qed

lemma ranked_top_ten: "ranked (take 10 (sort_key sort_key_of xs))"
  using ranked_sort_key [of xs] by (simp add: ranked_def)

lemma get_leaderboard_add_score:
  assumes "add_score m r = (Inr (), m')"
  shows "get_leaderboard m' dept diff =
     (if dept = department r \<and> diff = difficulty r
      then take 10 (sort_key sort_key_of (get_leaderboard m dept diff @ [to_dict r]))
      else get_leaderboard m dept diff)"
proof -
  from assms obtain by_difficulty l where
    a: "scores m (department r) = Some by_difficulty" and
    b: "by_difficulty (difficulty r) = Some l" and
    c: "m' = m\<lparr>scores := (scores m)(department r \<mapsto>
            by_difficulty(difficulty r \<mapsto> take 10 (sort_key sort_key_of (l @ [to_dict r]))))\<rparr>"
    using add_score_cases [of m r] by auto
  show ?thesis
    by (simp add: a b c get_leaderboard_def)
qed

lemma well_formed_add_score:
  assumes "well_formed m" "add_score m r = (out, m')"
  shows "well_formed m'"
proof (cases out)
  case (Inl e)
  with assms show ?thesis using add_score_error by blast
next
  case (Inr u)
  with assms(2) have ok: "add_score m r = (Inr (), m')" by simp
  show ?thesis
    unfolding well_formed_def
  proof (intro allI)
    fix dept diff
    show "length (get_leaderboard m' dept diff) \<le> 10 \<and> ranked (get_leaderboard m' dept diff)"
      using assms(1) by (simp add: get_leaderboard_add_score [OF ok] well_formed_def ranked_top_ten)
  qed
qed

lemma default_bucket_empty:
  "create_default_structure dept = Some by_difficulty \<Longrightarrow> by_difficulty diff = Some l \<Longrightarrow> l = []"
  by (auto simp: create_default_structure_def default_departments_def default_difficulties_def
      split: if_splits)

lemma well_formed_default: "well_formed \<lparr>filename = f, scores = create_default_structure\<rparr>"
  by (auto simp: well_formed_def get_leaderboard_def ranked_def dest: default_bucket_empty
      split: option.splits)

lemma absent_outranked:
  assumes "x \<in> set xs" "x \<notin> set (take n (sort_key sort_key_of xs))"
  shows "length (take n (sort_key sort_key_of xs)) = n
       \<and> (\<forall>y \<in> set (take n (sort_key sort_key_of xs)).
            (entry_percentage x, entry_score x) \<le> (entry_percentage y, entry_score y))"
proof -
  let ?s = "sort_key sort_key_of xs"
  have "x \<in> set ?s" using assms(1) by simp
  then have "x \<in> set (take n ?s) \<union> set (drop n ?s)" by (metis append_take_drop_id set_append)
  with assms(2) have xd: "x \<in> set (drop n ?s)" by simp
  then have "drop n ?s \<noteq> []" by auto
  then have len: "length (take n ?s) = n" by simp
  have "ranked (take n ?s @ drop n ?s)" using ranked_sort_key by simp
  then have "\<forall>y \<in> set (take n ?s). \<forall>z \<in> set (drop n ?s).
      (entry_percentage z, entry_score z) \<le> (entry_percentage y, entry_score y)"
    unfolding ranked_def sorted_wrt_append by blast
  with xd len show ?thesis by blast
qed

lemma get_final_result_Inr:
  assumes "get_final_result self dept diff name now = (Inr r, self')"
  shows "r = \<lparr>department = dept, difficulty = diff, result_score = score self,
              result_total_marks = total_marks self,
              percentage = (if 0 < total_marks self
                            then real_of_int (score self) / real_of_int (total_marks self) * 100
                            else 0),
              player_name = name, timestamp = now\<rparr>"
    and "add_score (high_score_manager self) r = (Inr (), high_score_manager self')"
    and "self' = self\<lparr>high_score_manager := high_score_manager self'\<rparr>"
  using assms unfolding get_final_result_eq Let_def
  by (auto split: prod.splits sum.splits)

lemma get_final_result_success:
  assumes "add_score (high_score_manager self) r = (Inr (), m')"
    and "r = \<lparr>department = dept, difficulty = diff, result_score = score self,
              result_total_marks = total_marks self,
              percentage = (if 0 < total_marks self
                            then real_of_int (score self) / real_of_int (total_marks self) * 100
                            else 0),
              player_name = name, timestamp = now\<rparr>"
  shows "get_final_result self dept diff name now = (Inr r, self\<lparr>high_score_manager := m'\<rparr>)"
  using assms(1) unfolding get_final_result_eq Let_def assms(2) [symmetric]
  by simp

lemma add_score_again:
  assumes "add_score m r = (Inr (), m')" "department r' = department r" "difficulty r' = difficulty r"
  shows "\<exists>m''. add_score m' r' = (Inr (), m'')"
proof -
  from assms(1) obtain by_difficulty l where
    c: "m' = m\<lparr>scores := (scores m)(department r \<mapsto>
            by_difficulty(difficulty r \<mapsto> take 10 (sort_key sort_key_of (l @ [to_dict r]))))\<rparr>"
    using add_score_cases [of m r] by auto
  show ?thesis
    using add_score_cases [of m' r'] by (auto simp: c assms(2,3))
qed

lemma demo_leaderboard_empty: "get_leaderboard demo_manager ''Mathematics'' ''Easy'' = []"
  using demo_bucket default_bucket_empty
  by (auto simp: get_leaderboard_def demo_manager_def split: option.splits)

lemma demo_add_ok: "add_score demo_manager demo_result = (Inr (), snd (add_score demo_manager demo_result))"
  using demo_bucket add_score_cases [of demo_manager demo_result]
  by (auto simp: demo_result_def)

lemma demo_first_eq:
  "demo_first =
     (Inr demo_result,
      (advance 2 demo_loaded)\<lparr>high_score_manager := snd (add_score demo_manager demo_result)\<rparr>)"
proof -
  have h: "high_score_manager (advance 2 demo_loaded) = demo_manager"
    "score (advance 2 demo_loaded) = 0" "total_marks (advance 2 demo_loaded) = 30"
    by (simp_all add: advance_eq demo_loaded_eq)
  have a: "add_score (high_score_manager (advance 2 demo_loaded)) demo_result =
      (Inr (), snd (add_score demo_manager demo_result))"
    unfolding h by (rule demo_add_ok)
  show ?thesis
    unfolding demo_first_def
    by (rule get_final_result_success [OF a]) (simp add: h demo_result_def)
qed

lemma demo_full_add:
  "add_score demo_full demo_result = (Inr (), snd (add_score demo_full demo_result))"
  using add_score_cases [of demo_full demo_result]
  by (auto simp: demo_result_def demo_full_def)

lemma demo_full_leaderboard:
  "get_leaderboard demo_full ''Mathematics'' ''Easy'' = replicate 10 demo_top_entry"
  by (simp add: get_leaderboard_def demo_full_def)

lemma demo_full_sorted:
  "take 10 (sort_key sort_key_of (replicate 10 demo_top_entry @ [to_dict demo_result]))
     = replicate 10 demo_top_entry"
proof -
  have "sort_key_of demo_top_entry \<le> sort_key_of (to_dict demo_result)"
    by (simp add: sort_key_of_def demo_top_entry_def to_dict_def demo_result_def)
  then have "sorted (map sort_key_of (replicate 10 demo_top_entry @ [to_dict demo_result]))"
    by (simp add: sorted_append)
  then have "sort_key sort_key_of (replicate 10 demo_top_entry @ [to_dict demo_result])
      = replicate 10 demo_top_entry @ [to_dict demo_result]"
    by (rule sort_key_id_if_sorted)
  then show ?thesis by simp
qed

lemma demo_result_not_top: "to_dict demo_result \<notin> set (replicate 10 demo_top_entry)"
  by (simp add: demo_top_entry_def to_dict_def demo_result_def)

section \<open>Scoring\<close>

text \<open>
  Claim C1. \<^verbatim>\<open>submit_answer\<close> returns a triple (is-correct flag, points, feedback text)
  and adds the points to the score. With a current question \<open>q\<close>: for the timeout value
  \<^verbatim>\<open>None\<close> the points are minus the penalty marks and the feedback is the time-up text;
  for a valid option index equal to the correct index the flag is true, the points are
  the reward marks and the feedback is the text for a correct answer; for a valid option
  index different from the (valid) correct index the points are minus the penalty marks
  and the feedback is the text for a wrong answer, naming the correct option. In each
  case the new engine is the old one with exactly these points added to the score. The
  three outcomes are told apart by the flag and the feedback text, which are pairwise
  different (\<open>feedback_distinct\<close>).
\<close>

theorem submit_answer_scoring:
  "get_current_question self = Some q \<Longrightarrow>
     submit_answer self None =
       (Inr (False, - negative_marks q, timeout_feedback q),
        self\<lparr>score := score self + (- negative_marks q)\<rparr>)
   \<and> (\<forall>i. 0 \<le> i \<and> i < int (length (options q)) \<and> i = correct_answer q \<longrightarrow>
         submit_answer self (Some i) =
           (Inr (True, marks q, correct_feedback q), self\<lparr>score := score self + marks q\<rparr>))
   \<and> (\<forall>i. 0 \<le> i \<and> i < int (length (options q)) \<and> i \<noteq> correct_answer q
          \<and> 0 \<le> correct_answer q \<and> correct_answer q < int (length (options q)) \<longrightarrow>
         submit_answer self (Some i) =
           (Inr (False, - negative_marks q,
                 wrong_feedback q (options q ! nat (correct_answer q))),
            self\<lparr>score := score self + (- negative_marks q)\<rparr>))"
  by (simp add: submit_answer_def is_correct_def Let_def getitem_valid)

theorem submit_answer_scoring_witness:
  "get_current_question demo_loaded = Some (make_question demo_q1)
   \<and> submit_answer demo_loaded None =
       (Inr (False, - 5, timeout_feedback (make_question demo_q1)), demo_loaded\<lparr>score := - 5\<rparr>)
   \<and> submit_answer demo_loaded (Some 0) =
       (Inr (True, 10, correct_feedback (make_question demo_q1)), demo_loaded\<lparr>score := 10\<rparr>)
   \<and> submit_answer demo_loaded (Some 1) =
       (Inr (False, - 5, wrong_feedback (make_question demo_q1) ''4''), demo_loaded\<lparr>score := - 5\<rparr>)"
proof -
  have cur: "get_current_question demo_loaded = Some (make_question demo_q1)"
    by (rule demo_current)
  have sc: "score demo_loaded = 0" by (simp add: demo_loaded_eq)
  note t = submit_answer_scoring [OF cur]
  have a: "submit_answer demo_loaded None =
       (Inr (False, - 5, timeout_feedback (make_question demo_q1)), demo_loaded\<lparr>score := - 5\<rparr>)"
    using t by (simp add: demo_q1_fields sc)
  have b: "submit_answer demo_loaded (Some 0) =
       (Inr (True, 10, correct_feedback (make_question demo_q1)), demo_loaded\<lparr>score := 10\<rparr>)"
    using conjunct1 [OF conjunct2 [OF t], rule_format, of 0] by (simp add: demo_q1_fields sc)
  have c: "submit_answer demo_loaded (Some 1) =
       (Inr (False, - 5, wrong_feedback (make_question demo_q1) ''4''), demo_loaded\<lparr>score := - 5\<rparr>)"
    using conjunct2 [OF conjunct2 [OF t], rule_format, of 1] by (simp add: demo_q1_fields sc)
  from cur a b c show ?thesis by blast
qed

text \<open>
  Claim C4, as the specification states it, does not hold: an answer outside the option
  range is not rejected. With two options and the correct index 0, the answer 7 is
  scored as a wrong answer: the call returns normally with minus the penalty marks, and
  the score goes down by them.
\<close>

theorem out_of_range_answer_counterexample:
  "get_current_question demo_loaded = Some (make_question demo_q1)
   \<and> options (make_question demo_q1) = [''4'', ''5'']
   \<and> submit_answer demo_loaded (Some 7) =
       (Inr (False, - 5, wrong_feedback (make_question demo_q1) ''4''), demo_loaded\<lparr>score := - 5\<rparr>)"
proof -
  have sc: "score demo_loaded = 0" by (simp add: demo_loaded_eq)
  have "submit_answer demo_loaded (Some 7) =
       (Inr (False, - 5, wrong_feedback (make_question demo_q1) ''4''), demo_loaded\<lparr>score := - 5\<rparr>)"
    unfolding submit_answer_def demo_current
    by (simp add: demo_q1_fields is_correct_def getitem_def sc)
  then show ?thesis by (simp add: demo_current demo_q1_fields)
qed

text \<open>
  Claim C4, amended: \<^verbatim>\<open>submit_answer\<close> does not check the range of the answer. With a
  current question whose correct index is a valid option index, an answer that is out of
  the option range (and is not the timeout value) is scored like any other wrong answer:
  the flag is false, the points are minus the penalty marks, the feedback is the text for
  a wrong answer, and the penalty is taken from the score.
\<close>

theorem out_of_range_answer_scored_wrong:
  "get_current_question self = Some q \<Longrightarrow>
   0 \<le> correct_answer q \<Longrightarrow> correct_answer q < int (length (options q)) \<Longrightarrow>
   a < 0 \<or> int (length (options q)) \<le> a \<Longrightarrow>
     submit_answer self (Some a) =
       (Inr (False, - negative_marks q, wrong_feedback q (options q ! nat (correct_answer q))),
        self\<lparr>score := score self - negative_marks q\<rparr>)"
  by (auto simp: submit_answer_def is_correct_def Let_def getitem_valid)

theorem out_of_range_answer_scored_wrong_witness:
  "get_current_question demo_loaded = Some (make_question demo_q1)
   \<and> (0::int) \<le> correct_answer (make_question demo_q1)
   \<and> correct_answer (make_question demo_q1) < int (length (options (make_question demo_q1)))
   \<and> int (length (options (make_question demo_q1))) \<le> 2
   \<and> submit_answer demo_loaded (Some 2) =
       (Inr (False, - 5, wrong_feedback (make_question demo_q1) ''4''), demo_loaded\<lparr>score := - 5\<rparr>)"
proof -
  have h1: "(0::int) \<le> correct_answer (make_question demo_q1)" by (simp add: demo_q1_fields)
  have h2: "correct_answer (make_question demo_q1) < int (length (options (make_question demo_q1)))"
    by (simp add: demo_q1_fields)
  have h3: "int (length (options (make_question demo_q1))) \<le> 2" by (simp add: demo_q1_fields)
  have sc: "score demo_loaded = 0" by (simp add: demo_loaded_eq)
  have "submit_answer demo_loaded (Some 2) =
       (Inr (False, - 5, wrong_feedback (make_question demo_q1) ''4''), demo_loaded\<lparr>score := - 5\<rparr>)"
    using out_of_range_answer_scored_wrong [OF demo_current h1 h2 disjI2, OF h3]
    by (simp add: demo_q1_fields sc)
  with demo_current h1 h2 h3 show ?thesis by blast
qed

text \<open>
  Claim C8. When the position is at or past the end of the question list there is no
  current question, and \<^verbatim>\<open>submit_answer\<close> hands the caller the dedicated result
  \<^verbatim>\<open>(False, 0, "No question available")\<close> and leaves the engine as it was: nothing is
  scored. No call with a current question returns this result, so the caller can tell the
  condition from every scored answer.
\<close>

theorem submit_answer_no_question:
  "is_quiz_complete self \<Longrightarrow>
     get_current_question self = None
     \<and> submit_answer self answer = (Inr (False, 0, ''No question available''), self)
     \<and> (\<forall>other given out after. get_current_question other \<noteq> None \<longrightarrow>
          submit_answer other given = (out, after) \<longrightarrow>
          out \<noteq> Inr (False, 0, ''No question available''))"
proof -
  assume "is_quiz_complete self"
  then have n: "get_current_question self = None"
    by (simp add: is_quiz_complete_def get_current_question_def)
  have d: "out \<noteq> Inr (False, 0, ''No question available'')"
    if "get_current_question other \<noteq> None" "submit_answer other given = (out, after)"
    for other given out after
    using that feedback_distinct(4-6)
    by (auto simp: submit_answer_def Let_def split: option.splits if_splits sum.splits)
  from n d show ?thesis by (simp add: submit_answer_def)
qed

theorem submit_answer_no_question_witness:
  "is_quiz_complete (advance 2 demo_loaded)
   \<and> submit_answer (advance 2 demo_loaded) (Some 0) =
       (Inr (False, 0, ''No question available''), advance 2 demo_loaded)
   \<and> submit_answer (advance 2 demo_loaded) None =
       (Inr (False, 0, ''No question available''), advance 2 demo_loaded)"
  using submit_answer_no_question [OF demo_done_complete, of "Some 0"]
        submit_answer_no_question [OF demo_done_complete, of None]
        demo_done_complete
  by blast

section \<open>Session\<close>

text \<open>
  Claim C5, as the specification states it, does not hold for an empty question list:
  in the demo catalogue the key (Mathematics, Hard) resolves to the empty list, and
  \<^verbatim>\<open>load_quiz\<close> returns \<^verbatim>\<open>True\<close> with no questions loaded, a session that is complete
  at once.
\<close>

theorem load_quiz_empty_counterexample:
  "map_option (\<lambda>by_difficulty. by_difficulty ''Hard'') (all_questions demo_engine ''Mathematics'')
     = Some (Some [])
   \<and> load_quiz demo_engine ''Mathematics'' ''Hard'' = (True, demo_empty)
   \<and> current_questions demo_empty = []
   \<and> is_quiz_complete demo_empty"
proof -
  have "load_quiz demo_engine ''Mathematics'' ''Hard'' = (True, demo_empty)"
    by (simp add: demo_empty_def demo_engine_def init_def load_quiz_def demo_catalog_def Let_def)
  then show ?thesis
    by (simp add: demo_empty_eq is_quiz_complete_def) (simp add: demo_engine_def init_def demo_catalog_def)
qed

text \<open>
  Claim C5, amended: \<^verbatim>\<open>load_quiz\<close> fails (returns \<^verbatim>\<open>False\<close> and leaves the engine as
  it was) when the department or the difficulty is unknown. For a known key it succeeds
  whatever the question list is, the empty list included: it returns \<^verbatim>\<open>True\<close>, loads
  the questions, and resets the position to 0, the score to 0 and the total marks to the
  sum of the questions' reward marks.
\<close>

theorem load_quiz_result:
  "(all_questions self dept = None \<longrightarrow> load_quiz self dept diff = (False, self))
   \<and> (\<forall>by_difficulty. all_questions self dept = Some by_difficulty \<and> by_difficulty diff = None \<longrightarrow>
         load_quiz self dept diff = (False, self))
   \<and> (\<forall>by_difficulty data.
         all_questions self dept = Some by_difficulty \<and> by_difficulty diff = Some data \<longrightarrow>
         load_quiz self dept diff =
           (True, self\<lparr>current_questions := map make_question data,
                       current_question_index := 0, score := 0,
                       total_marks := sum_list (map marks (map make_question data))\<rparr>))"
  by (simp add: load_quiz_def)

theorem load_quiz_result_witness:
  "all_questions demo_engine ''History'' = None
   \<and> load_quiz demo_engine ''History'' ''Easy'' = (False, demo_engine)
   \<and> load_quiz demo_engine ''Mathematics'' ''Expert'' = (False, demo_engine)
   \<and> load_quiz demo_engine ''Mathematics'' ''Easy'' =
       (True, demo_engine\<lparr>current_questions := [make_question demo_q1, make_question demo_q2],
                           current_question_index := 0, score := 0, total_marks := 30\<rparr>)
   \<and> load_quiz demo_engine ''Mathematics'' ''Hard'' =
       (True, demo_engine\<lparr>current_questions := [],
                           current_question_index := 0, score := 0, total_marks := 0\<rparr>)"
proof -
  let ?m = "[''Easy'' \<mapsto> [demo_q1, demo_q2], ''Hard'' \<mapsto> []]"
  have n: "all_questions demo_engine ''History'' = None"
    by (simp add: demo_engine_def init_def demo_catalog_def)
  have s: "all_questions demo_engine ''Mathematics'' = Some ?m"
    by (simp add: demo_engine_def init_def demo_catalog_def)
  have e: "?m ''Expert'' = None" "?m ''Easy'' = Some [demo_q1, demo_q2]" "?m ''Hard'' = Some []"
    by simp_all
  have a: "load_quiz demo_engine ''History'' ''Easy'' = (False, demo_engine)"
    using load_quiz_result [of demo_engine "''History''" "''Easy''"] n by blast
  have b: "load_quiz demo_engine ''Mathematics'' ''Expert'' = (False, demo_engine)"
    using load_quiz_result [of demo_engine "''Mathematics''" "''Expert''"] s e(1) by blast
  have "load_quiz demo_engine ''Mathematics'' ''Easy'' =
       (True, demo_engine\<lparr>current_questions := map make_question [demo_q1, demo_q2],
            current_question_index := 0, score := 0,
            total_marks := sum_list (map marks (map make_question [demo_q1, demo_q2]))\<rparr>)"
    using load_quiz_result [of demo_engine "''Mathematics''" "''Easy''"] s e(2) by blast
  then have c: "load_quiz demo_engine ''Mathematics'' ''Easy'' =
       (True, demo_engine\<lparr>current_questions := [make_question demo_q1, make_question demo_q2],
                           current_question_index := 0, score := 0, total_marks := 30\<rparr>)"
    by (simp add: make_question_def demo_q1_def demo_q2_def)
  have "load_quiz demo_engine ''Mathematics'' ''Hard'' =
       (True, demo_engine\<lparr>current_questions := map make_question [],
            current_question_index := 0, score := 0,
            total_marks := sum_list (map marks (map make_question []))\<rparr>)"
    using load_quiz_result [of demo_engine "''Mathematics''" "''Hard''"] s e(3) by blast
  then have d: "load_quiz demo_engine ''Mathematics'' ''Hard'' =
       (True, demo_engine\<lparr>current_questions := [],
                           current_question_index := 0, score := 0, total_marks := 0\<rparr>)"
    by simp
  from n a b c d show ?thesis by blast
qed

text \<open>
  Claim C6, as the specification states it, does not hold: after the two questions of
  the demo quiz have been advanced over, a third \<^verbatim>\<open>next_question\<close> returns
  \<^verbatim>\<open>False\<close> but moves the position from 2 to 3, so it is not a no-op.
\<close>

theorem next_question_past_end_counterexample:
  "load_quiz demo_engine ''Mathematics'' ''Easy'' = (True, demo_loaded)
   \<and> length (current_questions demo_loaded) = 2
   \<and> is_quiz_complete (advance 2 demo_loaded)
   \<and> current_question_index (advance 2 demo_loaded) = 2
   \<and> fst (next_question (advance 2 demo_loaded)) = False
   \<and> current_question_index (snd (next_question (advance 2 demo_loaded))) = 3
   \<and> snd (next_question (advance 2 demo_loaded)) \<noteq> advance 2 demo_loaded"
proof -
  have i: "current_question_index (snd (next_question (advance 2 demo_loaded))) = 3"
    "current_question_index (advance 2 demo_loaded) = 2"
    by (simp_all add: next_question_eq advance_eq demo_loaded_eq)
  then have "snd (next_question (advance 2 demo_loaded)) \<noteq> advance 2 demo_loaded"
    by auto
  moreover have "fst (next_question (advance 2 demo_loaded)) = False"
    by (simp add: next_question_eq advance_eq demo_loaded_eq)
  moreover have "length (current_questions demo_loaded) = 2" by (simp add: demo_loaded_eq)
  ultimately show ?thesis using i demo_load demo_done_complete by blast
qed

text \<open>
  Claim C6, amended: from a freshly loaded session with \<open>N\<close> questions, the session is
  not complete after fewer than \<open>N\<close> calls of \<^verbatim>\<open>next_question\<close> (call \<open>k + 1\<close> returns
  whether \<open>k + 1 < N\<close>), and it is complete after exactly \<open>N\<close> calls. The next call
  returns \<^verbatim>\<open>False\<close> and leaves the session complete; it changes nothing but the
  position, which it raises to \<open>N + 1\<close>.
\<close>

theorem next_question_completes:
  assumes "load_quiz self dept diff = (True, loaded)"
  shows "(\<forall>k < length (current_questions loaded).
            \<not> is_quiz_complete (advance k loaded)
            \<and> fst (next_question (advance k loaded)) = (Suc k < length (current_questions loaded)))
       \<and> is_quiz_complete (advance (length (current_questions loaded)) loaded)
       \<and> next_question (advance (length (current_questions loaded)) loaded) =
           (False, (advance (length (current_questions loaded)) loaded)
                     \<lparr>current_question_index := int (length (current_questions loaded)) + 1\<rparr>)
       \<and> is_quiz_complete (snd (next_question (advance (length (current_questions loaded)) loaded)))"
proof -
  have z: "current_question_index loaded = 0"
    using load_quiz_index [OF assms] by simp
  show ?thesis
    by (auto simp: advance_eq next_question_eq is_quiz_complete_def z)
qed

theorem next_question_completes_witness:
  "load_quiz demo_engine ''Mathematics'' ''Easy'' = (True, demo_loaded)
   \<and> length (current_questions demo_loaded) = 2
   \<and> \<not> is_quiz_complete (advance 1 demo_loaded)
   \<and> is_quiz_complete (advance 2 demo_loaded)
   \<and> next_question (advance 2 demo_loaded) =
        (False, (advance 2 demo_loaded)\<lparr>current_question_index := 3\<rparr>)"
proof -
  have l: "length (current_questions demo_loaded) = 2" by (simp add: demo_loaded_eq)
  note t = next_question_completes [OF demo_load, unfolded l]
  have "\<not> is_quiz_complete (advance 1 demo_loaded)"
    using conjunct1 [OF t, rule_format, of 1] by simp
  with t l demo_load show ?thesis by simp
qed

text \<open>
  Claim C7, as the specification states it, does not hold: the demo quiz of two
  questions advanced three times is a reachable state with position 3, above the number
  of questions, and it is complete although the position differs from that number.
\<close>

theorem reachable_position_counterexample:
  "reachable (advance 3 demo_loaded)
   \<and> current_question_index (advance 3 demo_loaded) = 3
   \<and> length (current_questions (advance 3 demo_loaded)) = 2
   \<and> is_quiz_complete (advance 3 demo_loaded)"
  using reachable_advance [OF reachable_demo_loaded, of 3]
  by (simp add: advance_eq demo_loaded_eq is_quiz_complete_def)

text \<open>
  Claim C7, amended: in every engine state reachable by \<^verbatim>\<open>load_quiz\<close>,
  \<^verbatim>\<open>submit_answer\<close> and \<^verbatim>\<open>next_question\<close> the position is at least 0, and the session
  is complete if and only if the position is at least the number of questions, which is
  the case if and only if there is no current question. The position is not bounded by
  the number of questions.
\<close>

theorem reachable_position:
  "reachable self \<Longrightarrow>
     0 \<le> current_question_index self
     \<and> (is_quiz_complete self \<longleftrightarrow>
          int (length (current_questions self)) \<le> current_question_index self)
     \<and> (is_quiz_complete self \<longleftrightarrow> get_current_question self = None)"
proof -
  assume "reachable self"
  then have "0 \<le> current_question_index self"
  proof (induction rule: reachable.induct)
    case (reachable_init questions manager)
    show ?case by (simp add: init_def)
  next
    case (reachable_load self dept diff ok self')
    then show ?case using load_quiz_index [of self dept diff ok self'] by (simp split: if_splits)
  next
    case (reachable_submit self answer out self')
    then show ?case using submit_answer_index [of self answer] by simp
  next
    case (reachable_next self remaining self')
    then show ?case by (auto simp: next_question_eq)
  qed
  then show ?thesis
    by (auto simp: is_quiz_complete_def get_current_question_def)
qed

theorem reachable_position_witness:
  "reachable (advance 3 demo_loaded)
   \<and> 0 \<le> current_question_index (advance 3 demo_loaded)
   \<and> is_quiz_complete (advance 3 demo_loaded)
   \<and> get_current_question (advance 3 demo_loaded) = None"
proof -
  have r: "reachable (advance 3 demo_loaded)"
    by (rule reachable_advance [OF reachable_demo_loaded])
  have "is_quiz_complete (advance 3 demo_loaded)"
    by (simp add: advance_eq demo_loaded_eq is_quiz_complete_def)
  with r reachable_position [OF r] show ?thesis by blast
qed

section \<open>Leaderboard\<close>

text \<open>
  Claim C10. \<^verbatim>\<open>add_score\<close> succeeds exactly when the store already has a bucket for
  the department and difficulty of the result. Otherwise it raises \<^verbatim>\<open>KeyError\<close> and
  the store is as before: no bucket is created. The default structure has a bucket for
  each of its departments and difficulties, so recording such a result into it succeeds.
\<close>

theorem add_score_missing_bucket:
  "(fst (add_score m r) = Inr () \<longleftrightarrow>
      (\<exists>by_difficulty l. scores m (department r) = Some by_difficulty
          \<and> by_difficulty (difficulty r) = Some l))
   \<and> (fst (add_score m r) \<noteq> Inr () \<longrightarrow> add_score m r = (Inl KeyError, m))
   \<and> (department r \<in> set default_departments \<and> difficulty r \<in> set default_difficulties \<longrightarrow>
        fst (add_score \<lparr>filename = f, scores = create_default_structure\<rparr> r) = Inr ())"
proof -
  have a: "fst (add_score m r) = Inr () \<longleftrightarrow>
      (\<exists>by_difficulty l. scores m (department r) = Some by_difficulty
          \<and> by_difficulty (difficulty r) = Some l)" for m
    using add_score_cases [of m r] by auto
  have b: "fst (add_score m r) \<noteq> Inr () \<longrightarrow> add_score m r = (Inl KeyError, m)"
    using add_score_cases [of m r] by auto
  have c: "fst (add_score \<lparr>filename = f, scores = create_default_structure\<rparr> r) = Inr ()"
    if "department r \<in> set default_departments" "difficulty r \<in> set default_difficulties"
    using default_bucket [OF that] by (auto simp: a)
  from a b c show ?thesis by blast
qed

theorem add_score_missing_bucket_witness:
  "scores demo_manager ''History'' = None
   \<and> add_score demo_manager (demo_result\<lparr>department := ''History''\<rparr>) = (Inl KeyError, demo_manager)
   \<and> fst (add_score demo_manager demo_result) = Inr ()"
proof -
  let ?r = "demo_result\<lparr>department := ''History''\<rparr>"
  have none: "scores demo_manager ''History'' = None"
    by (simp add: demo_manager_def create_default_structure_def default_departments_def)
  have dep: "department ?r = ''History''" by simp
  note t = add_score_missing_bucket [of demo_manager ?r]
  have "fst (add_score demo_manager ?r) \<noteq> Inr ()"
    using conjunct1 [OF t] none by (simp only: dep) simp
  with t have a: "add_score demo_manager ?r = (Inl KeyError, demo_manager)" by blast
  have "department demo_result \<in> set default_departments
        \<and> difficulty demo_result \<in> set default_difficulties"
    by (simp add: demo_result_def default_departments_def default_difficulties_def)
  with add_score_missing_bucket [of demo_manager demo_result "''high_scores.json''"]
  have b: "fst (add_score demo_manager demo_result) = Inr ()"
    by (simp add: demo_manager_def)
  from none a b show ?thesis by blast
qed

text \<open>
  Claim C2. From a well-formed store (every bucket ranked and of at most 10 entries, as
  the default structure is), every store that calls of \<^verbatim>\<open>add_score\<close> lead to is
  well formed again. For any store, well formed or not, a successful \<^verbatim>\<open>add_score\<close>
  makes the bucket of the result the first 10 entries of the old bucket with the new
  entry appended and the whole sorted by (percentage descending, score descending): the
  bucket is ranked, its length is the old length plus one, capped at 10, and the new
  entry is missing from it only when the bucket holds 10 entries that all rank at least
  as high.
\<close>

theorem leaderboard_top_ten_ranked:
  "(well_formed m0 \<and> recorded m0 m \<longrightarrow> well_formed m)
   \<and> (\<forall>r m'. add_score m r = (Inr (), m') \<longrightarrow>
         get_leaderboard m' (department r) (difficulty r) =
           take 10 (sort_key sort_key_of
                      (get_leaderboard m (department r) (difficulty r) @ [to_dict r]))
       \<and> length (get_leaderboard m' (department r) (difficulty r)) =
           min 10 (length (get_leaderboard m (department r) (difficulty r)) + 1)
       \<and> ranked (get_leaderboard m' (department r) (difficulty r))
       \<and> (to_dict r \<notin> set (get_leaderboard m' (department r) (difficulty r)) \<longrightarrow>
            length (get_leaderboard m' (department r) (difficulty r)) = 10
            \<and> (\<forall>y \<in> set (get_leaderboard m' (department r) (difficulty r)).
                  (entry_percentage (to_dict r), entry_score (to_dict r))
                    \<le> (entry_percentage y, entry_score y))))"
proof -
  have inv: "well_formed m" if "well_formed m0" "recorded m0 m"
    using that(2,1) by (induction rule: recorded.induct) (auto intro: well_formed_add_score)
  have step: "get_leaderboard m' (department r) (difficulty r) =
           take 10 (sort_key sort_key_of
                      (get_leaderboard m (department r) (difficulty r) @ [to_dict r]))
       \<and> length (get_leaderboard m' (department r) (difficulty r)) =
           min 10 (length (get_leaderboard m (department r) (difficulty r)) + 1)
       \<and> ranked (get_leaderboard m' (department r) (difficulty r))
       \<and> (to_dict r \<notin> set (get_leaderboard m' (department r) (difficulty r)) \<longrightarrow>
            length (get_leaderboard m' (department r) (difficulty r)) = 10
            \<and> (\<forall>y \<in> set (get_leaderboard m' (department r) (difficulty r)).
                  (entry_percentage (to_dict r), entry_score (to_dict r))
                    \<le> (entry_percentage y, entry_score y)))"
    if ok: "add_score m r = (Inr (), m')" for r m'
  proof -
    let ?old = "get_leaderboard m (department r) (difficulty r)"
    let ?new = "get_leaderboard m' (department r) (difficulty r)"
    have eq: "?new = take 10 (sort_key sort_key_of (?old @ [to_dict r]))"
      by (simp add: get_leaderboard_add_score [OF ok])
    have len: "length ?new = min 10 (length ?old + 1)" by (simp add: eq)
    have rk: "ranked ?new" unfolding eq by (rule ranked_top_ten)
    have out: "length ?new = 10
            \<and> (\<forall>y \<in> set ?new. (entry_percentage (to_dict r), entry_score (to_dict r))
                    \<le> (entry_percentage y, entry_score y))"
      if "to_dict r \<notin> set ?new"
      using absent_outranked [of "to_dict r" "?old @ [to_dict r]" 10] that
      unfolding eq by simp
    from eq len rk out show ?thesis by blast
  qed
  from inv step show ?thesis by blast
qed

theorem leaderboard_top_ten_ranked_witness:
  "well_formed demo_manager
   \<and> recorded demo_manager (snd (add_score demo_manager demo_result))
   \<and> well_formed (snd (add_score demo_manager demo_result))
   \<and> add_score demo_manager demo_result = (Inr (), snd (add_score demo_manager demo_result))
   \<and> get_leaderboard (snd (add_score demo_manager demo_result)) ''Mathematics'' ''Easy''
       = [to_dict demo_result]
   \<and> add_score demo_full demo_result = (Inr (), snd (add_score demo_full demo_result))
   \<and> get_leaderboard (snd (add_score demo_full demo_result)) ''Mathematics'' ''Easy''
       = replicate 10 demo_top_entry
   \<and> to_dict demo_result \<notin> set (get_leaderboard (snd (add_score demo_full demo_result)) ''Mathematics'' ''Easy'')
   \<and> length (get_leaderboard (snd (add_score demo_full demo_result)) ''Mathematics'' ''Easy'') = 10"
proof -
  let ?m1 = "snd (add_score demo_manager demo_result)"
  let ?m2 = "snd (add_score demo_full demo_result)"
  have w: "well_formed demo_manager"
    unfolding demo_manager_def by (rule well_formed_default)
  have r: "recorded demo_manager ?m1"
    by (rule recorded_add [OF recorded_start demo_add_ok])
  have d: "department demo_result = ''Mathematics''" "difficulty demo_result = ''Easy''"
    by (simp_all add: demo_result_def)
  from leaderboard_top_ten_ranked [of demo_manager ?m1] w r have w1: "well_formed ?m1" by blast
  have "get_leaderboard ?m1 ''Mathematics'' ''Easy'' =
      take 10 (sort_key sort_key_of
        (get_leaderboard demo_manager ''Mathematics'' ''Easy'' @ [to_dict demo_result]))"
    using leaderboard_top_ten_ranked [of demo_manager demo_manager] demo_add_ok
    unfolding d [symmetric] by blast
  then have l: "get_leaderboard ?m1 ''Mathematics'' ''Easy'' = [to_dict demo_result]"
    by (simp add: demo_leaderboard_empty)
  note t = leaderboard_top_ten_ranked [of demo_full demo_full, THEN conjunct2, rule_format,
      OF demo_full_add, unfolded d]
  have l2: "get_leaderboard ?m2 ''Mathematics'' ''Easy'' = replicate 10 demo_top_entry"
    using t unfolding demo_full_leaderboard demo_full_sorted by blast
  have n: "to_dict demo_result \<notin> set (get_leaderboard ?m2 ''Mathematics'' ''Easy'')"
    unfolding l2 by (rule demo_result_not_top)
  with t have len: "length (get_leaderboard ?m2 ''Mathematics'' ''Easy'') = 10" by blast
  from w r w1 demo_add_ok l demo_full_add l2 n len show ?thesis by blast
qed

section \<open>Final result\<close>



text \<open>
  Claim C3, as the specification states it, does not hold: on the completed demo
  session a second \<^verbatim>\<open>get_final_result\<close> does not fail. It returns the result again,
  and the bucket, empty before, holds two entries of the session afterwards.
\<close>

theorem finalize_twice_counterexample:
  "is_quiz_complete (advance 2 demo_loaded)
   \<and> fst demo_first = Inr demo_result
   \<and> fst demo_second = Inr (demo_result\<lparr>timestamp := ''2024-01-01 10:00:05''\<rparr>)
   \<and> get_leaderboard (high_score_manager (advance 2 demo_loaded)) ''Mathematics'' ''Easy'' = []
   \<and> get_leaderboard (high_score_manager (snd demo_second)) ''Mathematics'' ''Easy'' =
       [to_dict demo_result, to_dict (demo_result\<lparr>timestamp := ''2024-01-01 10:00:05''\<rparr>)]"
proof -
  let ?r2 = "demo_result\<lparr>timestamp := ''2024-01-01 10:00:05''\<rparr>"
  let ?m1 = "snd (add_score demo_manager demo_result)"
  have d: "department demo_result = ''Mathematics''" "difficulty demo_result = ''Easy''"
    by (simp_all add: demo_result_def)
  have l1: "get_leaderboard ?m1 ''Mathematics'' ''Easy'' = [to_dict demo_result]"
    using get_leaderboard_add_score [OF demo_add_ok, of "''Mathematics''" "''Easy''"]
    by (simp add: d demo_leaderboard_empty)
  obtain m2 where a2: "add_score ?m1 ?r2 = (Inr (), m2)"
    using add_score_again [OF demo_add_ok, of ?r2] by auto
  have l2: "get_leaderboard m2 ''Mathematics'' ''Easy'' = [to_dict demo_result, to_dict ?r2]"
    using get_leaderboard_add_score [OF a2, of "''Mathematics''" "''Easy''"]
    by (simp add: d l1 sort_key_of_def to_dict_def)
  have h: "high_score_manager (advance 2 demo_loaded) = demo_manager"
    by (simp add: advance_eq demo_loaded_eq)
  have hs: "high_score_manager (snd demo_first) = ?m1" "score (snd demo_first) = 0"
    "total_marks (snd demo_first) = 30"
    by (simp_all add: demo_first_eq advance_eq demo_loaded_eq)
  have a2': "add_score (high_score_manager (snd demo_first)) ?r2 = (Inr (), m2)"
    unfolding hs by (rule a2)
  have s: "demo_second = (Inr ?r2, (snd demo_first)\<lparr>high_score_manager := m2\<rparr>)"
    unfolding demo_second_def
    by (rule get_final_result_success [OF a2']) (simp add: hs demo_result_def)
  show ?thesis
    by (simp add: demo_done_complete demo_first_eq s l2 h demo_leaderboard_empty)
qed

text \<open>
  Claim C3, amended: \<^verbatim>\<open>get_final_result\<close> keeps no record of having been called.
  When a call on a session succeeds, a second call on the same session succeeds as well:
  it returns the same result apart from the timestamp, it changes nothing of the engine
  but the high score store, and it records a second entry, so that the bucket has gained
  two entries from the session (its length grows by two, capped at 10; with at most 8
  entries before, it holds exactly the old entries and the two new ones).
\<close>

theorem get_final_result_twice:
  assumes "get_final_result self dept diff name now1 = (Inr r1, self1)"
  shows "\<exists>r2 self2.
           get_final_result self1 dept diff name now2 = (Inr r2, self2)
         \<and> r2 = r1\<lparr>timestamp := now2\<rparr>
         \<and> self2\<lparr>high_score_manager := high_score_manager self\<rparr> = self
         \<and> length (get_leaderboard (high_score_manager self2) dept diff) =
             min 10 (length (get_leaderboard (high_score_manager self) dept diff) + 2)
         \<and> (length (get_leaderboard (high_score_manager self) dept diff) \<le> 8 \<longrightarrow>
              mset (get_leaderboard (high_score_manager self2) dept diff) =
                mset (get_leaderboard (high_score_manager self) dept diff)
                  + {#to_dict r1, to_dict r2#})"
proof -
  note f = get_final_result_Inr [OF assms]
  define r2 where "r2 = r1\<lparr>timestamp := now2\<rparr>"
  have d: "department r1 = dept" "difficulty r1 = diff" "department r2 = dept" "difficulty r2 = diff"
    by (simp_all add: r2_def f(1))
  have s1: "score self1 = score self" "total_marks self1 = total_marks self"
    by (subst f(3), simp)+
  obtain m2 where a2: "add_score (high_score_manager self1) r2 = (Inr (), m2)"
    using add_score_again [OF f(2), of r2] d by auto
  have r2_eq: "r2 = \<lparr>department = dept, difficulty = diff, result_score = score self1,
              result_total_marks = total_marks self1,
              percentage = (if 0 < total_marks self1
                            then real_of_int (score self1) / real_of_int (total_marks self1) * 100
                            else 0),
              player_name = name, timestamp = now2\<rparr>"
    unfolding s1 r2_def by (subst f(1)) simp
  have g: "get_final_result self1 dept diff name now2 =
             (Inr r2, self1\<lparr>high_score_manager := m2\<rparr>)"
    by (rule get_final_result_success [OF a2 r2_eq])
  let ?l0 = "get_leaderboard (high_score_manager self) dept diff"
  let ?l1 = "get_leaderboard (high_score_manager self1) dept diff"
  let ?l2 = "get_leaderboard m2 dept diff"
  have l1: "?l1 = take 10 (sort_key sort_key_of (?l0 @ [to_dict r1]))"
    using get_leaderboard_add_score [OF f(2), of dept diff] d by simp
  have l2: "?l2 = take 10 (sort_key sort_key_of (?l1 @ [to_dict r2]))"
    using get_leaderboard_add_score [OF a2, of dept diff] d by simp
  have len: "length ?l2 = min 10 (length ?l0 + 2)"
    by (simp add: l1 l2)
  have ms: "mset ?l2 = mset ?l0 + {#to_dict r1, to_dict r2#}" if "length ?l0 \<le> 8"
  proof -
    have "?l1 = sort_key sort_key_of (?l0 @ [to_dict r1])"
      unfolding l1 using that by simp
    then have m1: "mset ?l1 = mset ?l0 + {#to_dict r1#}" by simp
    have "length ?l1 \<le> 9" using that by (simp add: l1)
    then have "?l2 = sort_key sort_key_of (?l1 @ [to_dict r2])"
      unfolding l2 by simp
    then have "mset ?l2 = mset ?l1 + {#to_dict r2#}" by simp
    with m1 show ?thesis by simp
  qed
  have same: "self1\<lparr>high_score_manager := m2\<rparr>\<lparr>high_score_manager := high_score_manager self\<rparr> = self"
    by (subst f(3)) simp
  from g r2_def same len ms show ?thesis by simp
qed

theorem get_final_result_twice_witness:
  "demo_first = (Inr demo_result, snd demo_first)
   \<and> demo_second = (Inr (demo_result\<lparr>timestamp := ''2024-01-01 10:00:05''\<rparr>), snd demo_second)
   \<and> length (get_leaderboard (high_score_manager (advance 2 demo_loaded)) ''Mathematics'' ''Easy'') = 0
   \<and> length (get_leaderboard (high_score_manager (snd demo_second)) ''Mathematics'' ''Easy'') = 2"
proof -
  have f: "get_final_result (advance 2 demo_loaded) ''Mathematics'' ''Easy'' ''Alice''
             ''2024-01-01 10:00:00'' = (Inr demo_result, snd demo_first)"
    using demo_first_eq by (simp add: demo_first_def)
  have h: "get_leaderboard (high_score_manager (advance 2 demo_loaded)) ''Mathematics'' ''Easy'' = []"
    by (simp add: advance_eq demo_loaded_eq demo_leaderboard_empty)
  from get_final_result_twice [OF f, of "''2024-01-01 10:00:05''"]
  obtain r2 self2 where
    g: "get_final_result (snd demo_first) ''Mathematics'' ''Easy'' ''Alice''
          ''2024-01-01 10:00:05'' = (Inr r2, self2)" and
    r2: "r2 = demo_result\<lparr>timestamp := ''2024-01-01 10:00:05''\<rparr>" and
    len: "length (get_leaderboard (high_score_manager self2) ''Mathematics'' ''Easy'') =
            min 10 (length (get_leaderboard (high_score_manager (advance 2 demo_loaded))
                              ''Mathematics'' ''Easy'') + 2)"
    by blast
  have s2: "demo_second = (Inr r2, self2)" using g by (simp add: demo_second_def)
  have f1: "demo_first = (Inr demo_result, snd demo_first)" using f by (simp add: demo_first_def)
  have sn: "snd demo_second = self2" by (simp add: s2)
  have l2: "length (get_leaderboard (high_score_manager (snd demo_second)) ''Mathematics'' ''Easy'') = 2"
    unfolding sn len h by simp
  have s3: "demo_second = (Inr (demo_result\<lparr>timestamp := ''2024-01-01 10:00:05''\<rparr>), snd demo_second)"
    unfolding sn using s2 r2 by simp
  from f1 s3 l2 h show ?thesis by simp
qed

end
